theory Spec2Isabelle
  imports Main
begin

section \<open>Python strings\<close>

text \<open>
  A Python \<^verbatim>\<open>str\<close> is a sequence of Unicode code points: slicing, \<^verbatim>\<open>replace\<close> and
  truthiness all count code points. The status strings of \<^verbatim>\<open>main.py\<close> hold code points
  beyond ASCII, so a string is modelled as the list of its code points; \<open>ascii\<close> embeds an
  ASCII literal.
\<close>

type_synonym pystr = "nat list"

definition ascii :: "string \<Rightarrow> pystr" where
  "ascii s = map of_char s"

text \<open>U+2705 (check mark), U+274C (cross mark), U+26A0 U+FE0F (warning sign).\<close>

definition CHECK :: pystr where
  "CHECK = [9989]"

definition CROSS :: pystr where
  "CROSS = [10060]"

definition WARN :: pystr where
  "WARN = [9888, 65039]"

text \<open>Truthiness of \<^verbatim>\<open>str | None\<close>: \<^verbatim>\<open>None\<close> and the empty string are falsy.\<close>

definition truthy :: "pystr option \<Rightarrow> bool" where
  "truthy v = (case v of None \<Rightarrow> False | Some s \<Rightarrow> s \<noteq> [])"

section \<open>The database probe: \<^verbatim>\<open>GET /test\<close>\<close>

text \<open>
  What the handler can observe of a raised exception: which \<^verbatim>\<open>except\<close> clause it
  matches, and \<^verbatim>\<open>str(e)\<close>. \<open>ImportError\<close> stands for \<^verbatim>\<open>ImportError\<close> and its
  subclasses, \<open>OtherException\<close> for every other subclass of \<^verbatim>\<open>Exception\<close>, and
  \<open>NonException\<close> for a \<^verbatim>\<open>BaseException\<close> outside \<^verbatim>\<open>Exception\<close>, which no clause of
  the handler catches.
\<close>

datatype exc_class = ImportError | OtherException | NonException

datatype py_exn = Raised exc_class pystr

fun str_exn :: "py_exn \<Rightarrow> pystr" where
  "str_exn (Raised c msg) = msg"

fun isinstance_ImportError :: "py_exn \<Rightarrow> bool" where
  "isinstance_ImportError (Raised c msg) = (c = ImportError)"

fun isinstance_Exception :: "py_exn \<Rightarrow> bool" where
  "isinstance_Exception (Raised c msg) = (c = ImportError \<or> c = OtherException)"

text \<open>
  The collaborator is an input of the handler. A handle either has a \<^verbatim>\<open>name\<close> attribute
  or not, and a call of \<^verbatim>\<open>list_collection_names()\<close> either returns a list of names or
  raises. \<^verbatim>\<open>from database import db\<close> either raises or binds \<^verbatim>\<open>db\<close>, which may be
  \<^verbatim>\<open>None\<close>.
\<close>

record db_handle =
  name_attr :: "pystr option"
  list_collection_names :: "py_exn + pystr list"

datatype import_result = ImportRaises py_exn | Imported "db_handle option"

type_synonym environ = "string \<Rightarrow> pystr option"

record response =
  backend :: pystr
  database :: pystr
  database_url :: "pystr option"
  database_name :: "pystr option"
  connection_status :: pystr
  collections :: "pystr list"

definition initial_response :: response where
  "initial_response =
     \<lparr>backend = CHECK @ ascii '' Running'',
      database = CROSS @ ascii '' Not Available'',
      database_url = None,
      database_name = None,
      connection_status = ascii ''Not Connected'',
      collections = []\<rparr>"

text \<open>
  A \<^verbatim>\<open>try\<close> body mutates the response dictionary in place, so it returns the dictionary as
  it stands when the body ends, and the exception still in flight, if any.
\<close>

text \<open>Lines 64 to 69: the inner \<^verbatim>\<open>try\<close> with its \<^verbatim>\<open>except Exception\<close>.\<close>

definition list_collections :: "db_handle \<Rightarrow> response \<Rightarrow> response \<times> py_exn option" where
  "list_collections db r =
     (case list_collection_names db of
        Inr cols \<Rightarrow>
          (r\<lparr>collections := take 10 cols,
             database := CHECK @ ascii '' Connected & Working''\<rparr>, None)
      | Inl e \<Rightarrow>
          if isinstance_Exception e
          then (r\<lparr>database := WARN @ ascii ''  Connected but Error: '' @ take 50 (str_exn e)\<rparr>,
                None)
          else (r, Some e))"

text \<open>Lines 55 to 71: the body of the outer \<^verbatim>\<open>try\<close>.\<close>

definition probe :: "import_result \<Rightarrow> response \<Rightarrow> response \<times> py_exn option" where
  "probe imp r =
     (case imp of
        ImportRaises e \<Rightarrow> (r, Some e)
      | Imported None \<Rightarrow>
          (r\<lparr>database := WARN @ ascii ''  Available but not initialized''\<rparr>, None)
      | Imported (Some db) \<Rightarrow>
          list_collections db
            (r\<lparr>database := CHECK @ ascii '' Available'',
               database_url := Some (CHECK @ ascii '' Configured''),
               database_name :=
                 Some (case name_attr db of Some n \<Rightarrow> n
                       | None \<Rightarrow> CHECK @ ascii '' Connected''),
               connection_status := ascii ''Connected''\<rparr>))"

text \<open>Lines 78 to 81: the presence checks of the two environment variables.\<close>

definition check_environment :: "environ \<Rightarrow> response \<Rightarrow> response" where
  "check_environment getenv r =
     r\<lparr>database_url :=
         Some (if truthy (getenv ''DATABASE_URL'') then CHECK @ ascii '' Set''
               else CROSS @ ascii '' Not Set''),
       database_name :=
         Some (if truthy (getenv ''DATABASE_NAME'') then CHECK @ ascii '' Set''
               else CROSS @ ascii '' Not Set'')\<rparr>"

text \<open>
  The handler: \<open>Inr\<close> is the returned dictionary, \<open>Inl\<close> an exception that leaves the
  handler.
\<close>

definition test_database :: "import_result \<Rightarrow> environ \<Rightarrow> py_exn + response" where
  "test_database imp getenv =
     (case probe imp initial_response of
        (r, None) \<Rightarrow> Inr (check_environment getenv r)
      | (r, Some e) \<Rightarrow>
          if isinstance_ImportError e
          then Inr (check_environment getenv
                 (r\<lparr>database :=
                      CROSS @ ascii '' Database module not found (run enable-database first)''\<rparr>))
          else if isinstance_Exception e
          then Inr (check_environment getenv
                 (r\<lparr>database := CROSS @ ascii '' Error: '' @ take 50 (str_exn e)\<rparr>))
          else Inl e)"

section \<open>The request model of \<^verbatim>\<open>POST /generate_pptx\<close>\<close>

record Slide =
  title :: pystr
  bullets :: "pystr list"

record PresentationPayload =
  topic :: pystr
  slides :: "Slide list"
  author :: "pystr option"

text \<open>
  The request body is JSON, checked against the two model classes before the handler
  runs. The checks follow the field declarations of \<^verbatim>\<open>main.py\<close>: \<^verbatim>\<open>Field(...)\<close> and a
  bare annotation are required fields, \<^verbatim>\<open>default_factory=list\<close>, \<^verbatim>\<open>Field("...")\<close> and
  \<^verbatim>\<open>= None\<close> give the value of an omitted field, keys that name no field are ignored.
  A \<^verbatim>\<open>str\<close> field takes a JSON string only. A rejected body is reported by the first
  field that fails.
\<close>

datatype json =
  JNull | JBool bool | JNum int | JStr pystr | JArr "json list" | JObj "(pystr \<times> json) list"

datatype validation_error = Missing string | WrongType string

definition validate_str :: "string \<Rightarrow> json \<Rightarrow> validation_error + pystr" where
  "validate_str loc j = (case j of JStr s \<Rightarrow> Inr s | _ \<Rightarrow> Inl (WrongType loc))"

fun validate_str_items :: "string \<Rightarrow> json list \<Rightarrow> validation_error + pystr list" where
  "validate_str_items loc [] = Inr []"
| "validate_str_items loc (j # js) =
     (case validate_str loc j of
        Inl e \<Rightarrow> Inl e
      | Inr s \<Rightarrow>
          (case validate_str_items loc js of Inl e \<Rightarrow> Inl e | Inr ss \<Rightarrow> Inr (s # ss)))"

definition validate_bullets :: "json \<Rightarrow> validation_error + pystr list" where
  "validate_bullets j =
     (case j of JArr js \<Rightarrow> validate_str_items ''bullets'' js | _ \<Rightarrow> Inl (WrongType ''bullets''))"

definition validate_Slide :: "json \<Rightarrow> validation_error + Slide" where
  "validate_Slide j =
     (case j of
        JObj kvs \<Rightarrow>
          (case map_of kvs (ascii ''title'') of
             None \<Rightarrow> Inl (Missing ''title'')
           | Some jt \<Rightarrow>
               (case validate_str ''title'' jt of
                  Inl e \<Rightarrow> Inl e
                | Inr t \<Rightarrow>
                    (case map_of kvs (ascii ''bullets'') of
                       None \<Rightarrow> Inr \<lparr>title = t, bullets = []\<rparr>
                     | Some jb \<Rightarrow>
                         (case validate_bullets jb of
                            Inl e \<Rightarrow> Inl e
                          | Inr bs \<Rightarrow> Inr \<lparr>title = t, bullets = bs\<rparr>))))
      | _ \<Rightarrow> Inl (WrongType ''slides''))"

fun validate_Slide_items :: "json list \<Rightarrow> validation_error + Slide list" where
  "validate_Slide_items [] = Inr []"
| "validate_Slide_items (j # js) =
     (case validate_Slide j of
        Inl e \<Rightarrow> Inl e
      | Inr s \<Rightarrow>
          (case validate_Slide_items js of Inl e \<Rightarrow> Inl e | Inr ss \<Rightarrow> Inr (s # ss)))"

definition validate_slides :: "json \<Rightarrow> validation_error + Slide list" where
  "validate_slides j =
     (case j of JArr js \<Rightarrow> validate_Slide_items js | _ \<Rightarrow> Inl (WrongType ''slides''))"

definition validate_topic :: "json option \<Rightarrow> validation_error + pystr" where
  "validate_topic f =
     (case f of
        None \<Rightarrow> Inr (ascii ''Yoga: History & Advantages'')
      | Some j \<Rightarrow> validate_str ''topic'' j)"

definition validate_author :: "json option \<Rightarrow> validation_error + pystr option" where
  "validate_author f =
     (case f of
        None \<Rightarrow> Inr None
      | Some JNull \<Rightarrow> Inr None
      | Some j \<Rightarrow> (case validate_str ''author'' j of Inl e \<Rightarrow> Inl e | Inr a \<Rightarrow> Inr (Some a)))"

definition validate_PresentationPayload :: "json \<Rightarrow> validation_error + PresentationPayload" where
  "validate_PresentationPayload j =
     (case j of
        JObj kvs \<Rightarrow>
          (case validate_topic (map_of kvs (ascii ''topic'')) of
             Inl e \<Rightarrow> Inl e
           | Inr t \<Rightarrow>
               (case map_of kvs (ascii ''slides'') of
                  None \<Rightarrow> Inl (Missing ''slides'')
                | Some js \<Rightarrow>
                    (case validate_slides js of
                       Inl e \<Rightarrow> Inl e
                     | Inr ss \<Rightarrow>
                         (case validate_author (map_of kvs (ascii ''author'')) of
                            Inl e \<Rightarrow> Inl e
                          | Inr a \<Rightarrow> Inr \<lparr>topic = t, slides = ss, author = a\<rparr>))))
      | _ \<Rightarrow> Inl (WrongType ''body''))"

section \<open>The presentation document\<close>

text \<open>
  The handler builds the document through the presentation library and hands it to the
  web framework, neither of which is part of the repository. The model keeps what the
  handler's calls read and write, and the exceptions they raise: a document is the list of
  its slides, a slide the placeholder shapes cloned from its layout (keyed by placeholder
  index), a shape its text frame, a text frame the list of its paragraphs, and a paragraph
  the text that its \<^verbatim>\<open>.text\<close> property reads, its nesting level and its font size. A text
  frame always holds at least one paragraph. Slides and paragraphs are mutated through
  references, which are positions in the enclosing list.
\<close>

datatype py_error = IndexError | KeyError | AttributeError | UnicodeEncodeError | ValueError

record para =
  p_text :: pystr
  p_level :: nat
  p_font_size :: "nat option"

type_synonym text_frame = "para list"

datatype slide_layout = Title_Slide | Title_and_Content

record pptx_slide =
  layout :: slide_layout
  placeholders :: "(nat \<times> text_frame) list"

record presentation =
  slide_layouts :: "slide_layout list"
  prs_slides :: "pptx_slide list"

definition new_paragraph :: para where
  "new_paragraph = \<lparr>p_text = [], p_level = 0, p_font_size = None\<rparr>"

text \<open>\<^verbatim>\<open>Pt(n)\<close>: a length in English Metric Units, 12700 to the point.\<close>

definition Pt :: "nat \<Rightarrow> nat" where
  "Pt n = n * 12700"

text \<open>
  \<^verbatim>\<open>Presentation()\<close>: the default template without slides. Its first two layouts are
  ``Title Slide'' (title at index 0, subtitle at index 1) and ``Title and Content''
  (title at index 0, body at index 1); the handler reaches no other layout.
\<close>

definition Presentation :: presentation where
  "Presentation = \<lparr>slide_layouts = [Title_Slide, Title_and_Content], prs_slides = []\<rparr>"

definition slide_layouts_getitem :: "presentation \<Rightarrow> nat \<Rightarrow> py_error + slide_layout" where
  "slide_layouts_getitem prs i =
     (if i < length (slide_layouts prs) then Inr (slide_layouts prs ! i) else Inl IndexError)"

text \<open>\<^verbatim>\<open>prs.slides.add_slide(layout)\<close> appends a slide and returns a reference to it.\<close>

definition add_slide :: "slide_layout \<Rightarrow> presentation \<Rightarrow> presentation \<times> nat" where
  "add_slide l prs =
     (prs\<lparr>prs_slides := prs_slides prs @
            [\<lparr>layout = l, placeholders = [(0, [new_paragraph]), (1, [new_paragraph])]\<rparr>]\<rparr>,
      length (prs_slides prs))"

text \<open>
  \<^verbatim>\<open>slide.placeholders[idx]\<close> (also reached as \<^verbatim>\<open>slide.shapes.placeholders[idx]\<close>) looks a
  shape up by placeholder index; \<^verbatim>\<open>slide.shapes.title\<close> is the shape at index 0, and
  \<^verbatim>\<open>None\<close> without one, on which the assignment of \<^verbatim>\<open>.text\<close> raises.
\<close>

definition placeholders_getitem :: "pptx_slide \<Rightarrow> nat \<Rightarrow> py_error + text_frame" where
  "placeholders_getitem sl idx =
     (case map_of (placeholders sl) idx of None \<Rightarrow> Inl KeyError | Some tf \<Rightarrow> Inr tf)"

definition shapes_title :: "pptx_slide \<Rightarrow> py_error + text_frame" where
  "shapes_title sl =
     (case map_of (placeholders sl) 0 of None \<Rightarrow> Inl AttributeError | Some tf \<Rightarrow> Inr tf)"

text \<open>Writing a mutated text frame back to shape \<open>idx\<close> of slide \<open>i\<close>.\<close>

definition store_frame :: "nat \<Rightarrow> nat \<Rightarrow> text_frame \<Rightarrow> presentation \<Rightarrow> presentation" where
  "store_frame i idx tf prs =
     prs\<lparr>prs_slides := (prs_slides prs)
       [i := (prs_slides prs ! i)
          \<lparr>placeholders :=
             map (\<lambda>(k, v). if k = idx then (k, tf) else (k, v))
               (placeholders (prs_slides prs ! i))\<rparr>]\<rparr>"

subsection \<open>Assigning text\<close>

text \<open>
  Text reaches the document as the text of runs. The library replaces each control
  character of the class \<^verbatim>\<open>[\x00-\x08\x0B-\x1F]\<close> in a run by the seven characters
  \<^verbatim>\<open>_xHHHH_\<close> (its code point in four upper-case hexadecimal digits) and stores the result in
  the XML tree, which encodes it as UTF-8 and refuses what XML cannot hold: a lone
  surrogate raises \<^verbatim>\<open>UnicodeEncodeError\<close>, and U+FFFE or U+FFFF raises \<^verbatim>\<open>ValueError\<close>.
\<close>

definition surrogate :: "nat \<Rightarrow> bool" where
  "surrogate c = (55296 \<le> c \<and> c \<le> 57343)"

definition noncharacter :: "nat \<Rightarrow> bool" where
  "noncharacter c = (c = 65534 \<or> c = 65535)"

definition ctrl_char :: "nat \<Rightarrow> bool" where
  "ctrl_char c = (c \<le> 8 \<or> (11 \<le> c \<and> c \<le> 31))"

definition hex_digit :: "nat \<Rightarrow> nat" where
  "hex_digit d = (if d < 10 then 48 + d else 55 + d)"

definition escape_ctrl_char :: "nat \<Rightarrow> pystr" where
  "escape_ctrl_char c =
     ascii ''_x'' @
     map hex_digit [c div 4096 mod 16, c div 256 mod 16, c div 16 mod 16, c mod 16] @
     ascii ''_''"

definition escape_ctrl_chars :: "pystr \<Rightarrow> pystr" where
  "escape_ctrl_chars s = concat (map (\<lambda>c. if ctrl_char c then escape_ctrl_char c else [c]) s)"

text \<open>\<^verbatim>\<open>r.text = s\<close> on a run: the text the run then holds, or the exception.\<close>

definition run_text :: "pystr \<Rightarrow> py_error + pystr" where
  "run_text s =
     (if list_ex surrogate s then Inl UnicodeEncodeError
      else if list_ex noncharacter s then Inl ValueError
      else Inr (escape_ctrl_chars s))"

text \<open>
  \<open>split_on seps s\<close> cuts \<open>s\<close> at every character of \<open>seps\<close> (\<^verbatim>\<open>str.split\<close> and
  \<^verbatim>\<open>re.split\<close> on single characters: empty pieces are kept); \<open>join_with sep\<close> is
  \<^verbatim>\<open>sep.join\<close>.
\<close>

fun split_on :: "nat list \<Rightarrow> pystr \<Rightarrow> pystr list" where
  "split_on seps [] = [[]]"
| "split_on seps (c # cs) =
     (if c \<in> set seps then [] # split_on seps cs
      else (case split_on seps cs of [] \<Rightarrow> [[c]] | l # ls \<Rightarrow> (c # l) # ls))"

fun join_with :: "nat \<Rightarrow> pystr list \<Rightarrow> pystr" where
  "join_with sep [] = []"
| "join_with sep [l] = l"
| "join_with sep (l # ls) = l @ sep # join_with sep ls"

text \<open>
  Appending text to a paragraph: the text is cut at every line feed and vertical tab, each
  piece that is not empty becomes a run, in order, and a line break stands between two
  pieces. The paragraph then reads the texts of its runs with a vertical tab for each
  line break.
\<close>

fun add_runs :: "pystr list \<Rightarrow> py_error + pystr list" where
  "add_runs [] = Inr []"
| "add_runs (r # rs) =
     (case (if r = [] then Inr [] else run_text r) of
        Inl e \<Rightarrow> Inl e
      | Inr t \<Rightarrow> (case add_runs rs of Inl e \<Rightarrow> Inl e | Inr ts \<Rightarrow> Inr (t # ts)))"

definition append_text :: "pystr \<Rightarrow> py_error + pystr" where
  "append_text s =
     (case add_runs (split_on [10, 11] s) of
        Inl e \<Rightarrow> Inl e
      | Inr ts \<Rightarrow> Inr (join_with 11 ts))"

text \<open>\<^verbatim>\<open>p.text = s\<close> on a paragraph replaces its content by the appended text.\<close>

definition paragraph_set_text :: "pystr \<Rightarrow> para \<Rightarrow> py_error + para" where
  "paragraph_set_text s p =
     (case append_text s of Inl e \<Rightarrow> Inl e | Inr t \<Rightarrow> Inr (p\<lparr>p_text := t\<rparr>))"

text \<open>
  The \<^verbatim>\<open>.text\<close> property of a shape: assignment empties the text frame and appends one
  paragraph for each piece between line feeds, in order; reading joins the texts of the
  paragraphs with line feeds.
\<close>

fun add_paragraphs :: "pystr list \<Rightarrow> py_error + text_frame" where
  "add_paragraphs [] = Inr []"
| "add_paragraphs (l # ls) =
     (case append_text l of
        Inl e \<Rightarrow> Inl e
      | Inr t \<Rightarrow>
          (case add_paragraphs ls of
             Inl e \<Rightarrow> Inl e
           | Inr ps \<Rightarrow> Inr (new_paragraph\<lparr>p_text := t\<rparr> # ps)))"

definition set_text :: "pystr \<Rightarrow> py_error + text_frame" where
  "set_text s = add_paragraphs (split_on [10] s)"

definition get_text :: "text_frame \<Rightarrow> pystr" where
  "get_text tf = join_with 10 (map p_text tf)"

text \<open>\<^verbatim>\<open>tf.clear()\<close> removes every paragraph but the first and empties that one.\<close>

definition clear :: "text_frame \<Rightarrow> text_frame" where
  "clear tf = (case tf of [] \<Rightarrow> [new_paragraph] | p # ps \<Rightarrow> [p\<lparr>p_text := []\<rparr>])"

definition paragraphs_getitem :: "text_frame \<Rightarrow> nat \<Rightarrow> py_error + text_frame \<times> nat" where
  "paragraphs_getitem tf i = (if i < length tf then Inr (tf, i) else Inl IndexError)"

definition add_paragraph :: "text_frame \<Rightarrow> text_frame \<times> nat" where
  "add_paragraph tf = (tf @ [new_paragraph], length tf)"

subsection \<open>The response object\<close>

text \<open>
  The constructor of \<^verbatim>\<open>StreamingResponse\<close> encodes the media type and every header name and
  value as Latin-1, and raises \<^verbatim>\<open>UnicodeEncodeError\<close> on a code point above U+00FF. The
  stream carries the saved document, which stands for its bytes.
\<close>

definition latin1 :: "pystr \<Rightarrow> bool" where
  "latin1 s = list_all (\<lambda>c. c \<le> 255) s"

record StreamingResponse =
  content :: presentation
  media_type :: pystr
  headers :: "(pystr \<times> pystr) list"

definition new_StreamingResponse ::
  "presentation \<Rightarrow> pystr \<Rightarrow> (pystr \<times> pystr) list \<Rightarrow> py_error + StreamingResponse" where
  "new_StreamingResponse bio mt hs =
     (if list_all (\<lambda>(k, v). latin1 k \<and> latin1 v) hs \<and> latin1 mt
      then Inr \<lparr>content = bio, media_type = mt, headers = hs\<rparr>
      else Inl UnicodeEncodeError)"

section \<open>The generator: \<^verbatim>\<open>POST /generate_pptx\<close>\<close>

text \<open>\<^verbatim>\<open>payload.author or "Auto-generated presentation"\<close>\<close>

definition author_or_default :: "pystr option \<Rightarrow> pystr" where
  "author_or_default a =
     (if truthy a then (case a of Some s \<Rightarrow> s | None \<Rightarrow> [])
      else ascii ''Auto-generated presentation'')"

text \<open>Lines 96 to 100: the title slide.\<close>

definition title_slide :: "PresentationPayload \<Rightarrow> presentation \<Rightarrow> py_error + presentation" where
  "title_slide payload prs =
     (case slide_layouts_getitem prs 0 of
        Inl e \<Rightarrow> Inl e
      | Inr title_layout \<Rightarrow>
          (case add_slide title_layout prs of
             (prs1, slide0) \<Rightarrow>
               (case shapes_title (prs_slides prs1 ! slide0) of
                  Inl e \<Rightarrow> Inl e
                | Inr t \<Rightarrow>
                    (case set_text (topic payload) of
                       Inl e \<Rightarrow> Inl e
                     | Inr t1 \<Rightarrow>
                         (case store_frame slide0 0 t1 prs1 of
                            prs2 \<Rightarrow>
                              (case placeholders_getitem (prs_slides prs2 ! slide0) 1 of
                                 Inl e \<Rightarrow> Inl e
                               | Inr subtitle \<Rightarrow>
                                   (case set_text (author_or_default (author payload)) of
                                      Inl e \<Rightarrow> Inl e
                                    | Inr st \<Rightarrow> Inr (store_frame slide0 1 st prs2))))))))"

text \<open>Lines 117 to 119: the three assignments to the paragraph \<open>p\<close>.\<close>

definition write_bullet :: "nat \<Rightarrow> pystr \<Rightarrow> text_frame \<Rightarrow> py_error + text_frame" where
  "write_bullet p b tf =
     (case paragraph_set_text b (tf ! p) of
        Inl e \<Rightarrow> Inl e
      | Inr q \<Rightarrow> Inr (tf[p := q\<lparr>p_level := 0, p_font_size := Some (Pt 22)\<rparr>]))"

text \<open>Lines 111 to 119: the loop over the bullets, with its flag \<open>first\<close>.\<close>

fun add_bullets :: "pystr list \<Rightarrow> bool \<Rightarrow> text_frame \<Rightarrow> py_error + text_frame" where
  "add_bullets [] first tf = Inr tf"
| "add_bullets (b # bs) first tf =
     (case (if first then paragraphs_getitem tf 0 else Inr (add_paragraph tf)) of
        Inl e \<Rightarrow> Inl e
      | Inr (tf1, p) \<Rightarrow>
          (case write_bullet p b tf1 of
             Inl e \<Rightarrow> Inl e
           | Inr tf2 \<Rightarrow> add_bullets bs False tf2))"

text \<open>Lines 105 to 119: one content slide.\<close>

definition content_slide ::
  "Slide \<Rightarrow> slide_layout \<Rightarrow> presentation \<Rightarrow> py_error + presentation" where
  "content_slide s bullet_layout prs =
     (case add_slide bullet_layout prs of
        (prs1, slide) \<Rightarrow>
          (case shapes_title (prs_slides prs1 ! slide) of
             Inl e \<Rightarrow> Inl e
           | Inr t \<Rightarrow>
               (case set_text (title s) of
                  Inl e \<Rightarrow> Inl e
                | Inr t1 \<Rightarrow>
                    (case store_frame slide 0 t1 prs1 of
                       prs2 \<Rightarrow>
                         (case placeholders_getitem (prs_slides prs2 ! slide) 1 of
                            Inl e \<Rightarrow> Inl e
                          | Inr tf \<Rightarrow>
                              (case add_bullets (bullets s) True (clear tf) of
                                 Inl e \<Rightarrow> Inl e
                               | Inr tf1 \<Rightarrow> Inr (store_frame slide 1 tf1 prs2)))))))"

text \<open>Lines 104 to 119: the loop over the slides of the payload.\<close>

fun content_slides ::
  "Slide list \<Rightarrow> slide_layout \<Rightarrow> presentation \<Rightarrow> py_error + presentation" where
  "content_slides [] bullet_layout prs = Inr prs"
| "content_slides (s # ss) bullet_layout prs =
     (case content_slide s bullet_layout prs of
        Inl e \<Rightarrow> Inl e
      | Inr prs1 \<Rightarrow> content_slides ss bullet_layout prs1)"

text \<open>\<^verbatim>\<open>s.replace(old, new)\<close> for one-character \<open>old\<close> and \<open>new\<close>.\<close>

definition replace :: "pystr \<Rightarrow> nat \<Rightarrow> nat \<Rightarrow> pystr" where
  "replace s old new = map (\<lambda>c. if c = old then new else c) s"

text \<open>
  The handler: \<open>Inr\<close> is the response it returns, \<open>Inl\<close> the exception that leaves it (no
  line of the handler catches one).
\<close>

definition generate_pptx :: "PresentationPayload \<Rightarrow> py_error + StreamingResponse" where
  "generate_pptx payload =
     (case title_slide payload Presentation of
        Inl e \<Rightarrow> Inl e
      | Inr prs1 \<Rightarrow>
          (case slide_layouts_getitem prs1 1 of
             Inl e \<Rightarrow> Inl e
           | Inr bullet_layout \<Rightarrow>
               (case content_slides (slides payload) bullet_layout prs1 of
                  Inl e \<Rightarrow> Inl e
                | Inr prs2 \<Rightarrow>
                    (case replace (topic payload) 32 95 @ ascii ''.pptx'' of
                       filename \<Rightarrow>
                         new_StreamingResponse prs2
                           (ascii
                              ''application/vnd.openxmlformats-officedocument.presentationml.presentation'')
                           [(ascii ''Content-Disposition'',
                             ascii ''attachment; filename='' @ [34] @ filename @ [34])]))))"

subsection \<open>Classes of payloads\<close>

text \<open>
  The strings the handler hands to the library, in the order of the calls; the strings the
  library takes without raising; and the strings that read back as they were assigned, from
  a shape (\<open>verbatim\<close>) and from a paragraph (\<open>verbatim_line\<close>, where a line feed becomes a
  line break).
\<close>

definition document_texts :: "PresentationPayload \<Rightarrow> pystr list" where
  "document_texts payload =
     topic payload # author_or_default (author payload) #
     concat (map (\<lambda>s. title s # bullets s) (slides payload))"

definition encodable :: "pystr \<Rightarrow> bool" where
  "encodable s = (\<not> list_ex surrogate s \<and> \<not> list_ex noncharacter s)"

definition verbatim :: "pystr \<Rightarrow> bool" where
  "verbatim s = list_all (\<lambda>c. c = 11 \<or> \<not> ctrl_char c) s"

definition verbatim_line :: "pystr \<Rightarrow> bool" where
  "verbatim_line s = list_all (\<lambda>c. c \<noteq> 10 \<and> (c = 11 \<or> \<not> ctrl_char c)) s"

section \<open>Properties of the database probe\<close>

lemma database_check_environment: "database (check_environment getenv r) = database r"
  by (simp add: check_environment_def)

lemma collections_check_environment: "collections (check_environment getenv r) = collections r"
  by (simp add: check_environment_def)

lemma database_url_check_environment:
  "database_url (check_environment getenv r) =
     Some (if truthy (getenv ''DATABASE_URL'') then CHECK @ ascii '' Set''
           else CROSS @ ascii '' Not Set'')"
  by (simp add: check_environment_def)

lemma database_name_check_environment:
  "database_name (check_environment getenv r) =
     Some (if truthy (getenv ''DATABASE_NAME'') then CHECK @ ascii '' Set''
           else CROSS @ ascii '' Not Set'')"
  by (simp add: check_environment_def)

lemma check_environment_presence_only:
  "truthy (e1 ''DATABASE_URL'') = truthy (e2 ''DATABASE_URL'') \<Longrightarrow>
   truthy (e1 ''DATABASE_NAME'') = truthy (e2 ''DATABASE_NAME'') \<Longrightarrow>
   check_environment e1 r = check_environment e2 r"
  by (simp add: check_environment_def)

text \<open>
  The handler returns unless an exception outside \<^verbatim>\<open>Exception\<close> is raised by the import
  or by the listing.
\<close>

lemma test_database_returns:
  "(\<exists>r. test_database imp getenv = Inr r) \<or>
   (\<exists>e. test_database imp getenv = Inl e \<and> \<not> isinstance_Exception e)"
  by (simp add: test_database_def split: prod.split option.split)

text \<open>
  Claim C5. With an initialised handle: when \<^verbatim>\<open>list_collection_names()\<close> returns, the
  handler returns a response whose \<open>database\<close> field is the connected-and-working message
  and whose \<open>collections\<close> field is the first ten names returned (so at most ten); when
  the call raises an \<^verbatim>\<open>Exception\<close>, the handler still returns, and the \<open>database\<close> field
  is the connected-but-error message followed by the first fifty characters of the
  exception's message.
\<close>

theorem test_database_listing:
  "(list_collection_names db = Inr cols \<longrightarrow>
      (\<exists>r. test_database (Imported (Some db)) getenv = Inr r \<and>
           database r = CHECK @ ascii '' Connected & Working'' \<and>
           collections r = take 10 cols \<and> length (collections r) \<le> 10)) \<and>
   (list_collection_names db = Inl e \<and> isinstance_Exception e \<longrightarrow>
      (\<exists>r. test_database (Imported (Some db)) getenv = Inr r \<and>
           database r = WARN @ ascii ''  Connected but Error: '' @ take 50 (str_exn e) \<and>
           collections r = []))"
  by (simp add: test_database_def probe_def list_collections_def initial_response_def
      database_check_environment collections_check_environment)

theorem test_database_listing_witness:
  "(\<exists>r. test_database
          (Imported (Some \<lparr>name_attr = None,
             list_collection_names = Inr (replicate 12 (ascii ''c''))\<rparr>)) Map.empty = Inr r \<and>
        database r = CHECK @ ascii '' Connected & Working'' \<and>
        collections r = replicate 10 (ascii ''c'')) \<and>
   (\<exists>r. test_database
          (Imported (Some \<lparr>name_attr = Some (ascii ''app''),
             list_collection_names = Inl (Raised OtherException (replicate 60 120))\<rparr>))
          Map.empty = Inr r \<and>
        database r = WARN @ ascii ''  Connected but Error: '' @ replicate 50 120 \<and>
        collections r = [])"
  using
    test_database_listing [of
      "\<lparr>name_attr = None, list_collection_names = Inr (replicate 12 (ascii ''c''))\<rparr>"
      "replicate 12 (ascii ''c'')" Map.empty "Raised OtherException []"]
    test_database_listing [of
      "\<lparr>name_attr = Some (ascii ''app''),
        list_collection_names = Inl (Raised OtherException (replicate 60 120))\<rparr>"
      "[]" Map.empty "Raised OtherException (replicate 60 120)"]
  by simp blast

text \<open>
  Claim C6. When the import of the collaborator raises \<^verbatim>\<open>ImportError\<close>, the handler
  returns a response (no exception leaves it) whose \<open>database\<close> field is the
  module-not-found message.
\<close>

theorem test_database_module_not_found:
  "isinstance_ImportError e \<Longrightarrow>
   \<exists>r. test_database (ImportRaises e) getenv = Inr r \<and>
       database r = CROSS @ ascii '' Database module not found (run enable-database first)''"
  by (simp add: test_database_def probe_def database_check_environment)

theorem test_database_module_not_found_witness:
  "isinstance_ImportError (Raised ImportError (ascii ''No module named database'')) \<and>
   (\<exists>r. test_database (ImportRaises (Raised ImportError (ascii ''No module named database'')))
          Map.empty = Inr r \<and>
        database r = CROSS @ ascii '' Database module not found (run enable-database first)'')"
  using test_database_module_not_found
    [of "Raised ImportError (ascii ''No module named database'')" Map.empty]
  by simp

text \<open>
  Claim C7. The response depends on \<^verbatim>\<open>DATABASE_URL\<close> and \<^verbatim>\<open>DATABASE_NAME\<close> only through
  their truthiness: two runs with the same collaborator whose environments agree on
  whether each variable is set and non-empty give the same result, and in a response
  each of the two fields is one of two fixed strings, so no value of a variable appears
  in it.
\<close>

theorem test_database_presence_only:
  assumes "truthy (e1 ''DATABASE_URL'') = truthy (e2 ''DATABASE_URL'')"
    and "truthy (e1 ''DATABASE_NAME'') = truthy (e2 ''DATABASE_NAME'')"
  shows "test_database imp e1 = test_database imp e2 \<and>
    (case test_database imp e1 of
       Inr r \<Rightarrow>
         (database_url r = Some (CHECK @ ascii '' Set'') \<or>
          database_url r = Some (CROSS @ ascii '' Not Set'')) \<and>
         (database_name r = Some (CHECK @ ascii '' Set'') \<or>
          database_name r = Some (CROSS @ ascii '' Not Set''))
     | Inl e \<Rightarrow> True)"
  using check_environment_presence_only [OF assms]
  by (simp add: test_database_def database_url_check_environment
      database_name_check_environment split: prod.split option.split)

theorem test_database_presence_only_witness:
  "truthy ([''DATABASE_URL'' \<mapsto> ascii ''mongodb://alpha''] ''DATABASE_URL'') =
     truthy ([''DATABASE_URL'' \<mapsto> ascii ''mongodb://beta''] ''DATABASE_URL'') \<and>
   truthy ([''DATABASE_URL'' \<mapsto> ascii ''mongodb://alpha''] ''DATABASE_NAME'') =
     truthy ([''DATABASE_URL'' \<mapsto> ascii ''mongodb://beta''] ''DATABASE_NAME'') \<and>
   test_database (Imported None) [''DATABASE_URL'' \<mapsto> ascii ''mongodb://alpha''] =
     test_database (Imported None) [''DATABASE_URL'' \<mapsto> ascii ''mongodb://beta'']"
proof -
  have u: "truthy ([''DATABASE_URL'' \<mapsto> ascii ''mongodb://alpha''] ''DATABASE_URL'') =
     truthy ([''DATABASE_URL'' \<mapsto> ascii ''mongodb://beta''] ''DATABASE_URL'')"
    by (simp add: truthy_def ascii_def)
  have n: "truthy ([''DATABASE_URL'' \<mapsto> ascii ''mongodb://alpha''] ''DATABASE_NAME'') =
     truthy ([''DATABASE_URL'' \<mapsto> ascii ''mongodb://beta''] ''DATABASE_NAME'')"
    by (simp add: truthy_def)
  show ?thesis
    using u n test_database_presence_only [OF u n, of "Imported None"] by blast
qed

text \<open>
  Claim C8. When \<^verbatim>\<open>DATABASE_URL\<close> is unset, the handler returns a response whose
  \<open>database_url\<close> field is the cross mark followed by \<^verbatim>\<open> Not Set\<close>, whatever the import
  gave (module missing, handle not initialised, listing succeeding or failing), as long as
  what the import or the listing raises is an \<^verbatim>\<open>Exception\<close>.
\<close>

theorem test_database_url_unset:
  assumes "getenv ''DATABASE_URL'' = None"
    and "\<And>e. imp = ImportRaises e \<Longrightarrow> isinstance_Exception e"
    and "\<And>db e. imp = Imported (Some db) \<Longrightarrow> list_collection_names db = Inl e \<Longrightarrow>
           isinstance_Exception e"
  shows "\<exists>r. test_database imp getenv = Inr r \<and>
             database_url r = Some (CROSS @ ascii '' Not Set'')"
proof (cases imp)
  case (ImportRaises e)
  with assms(2) have "isinstance_Exception e" by simp
  with ImportRaises assms(1) show ?thesis
    by (simp add: test_database_def probe_def database_url_check_environment truthy_def)
next
  case (Imported h)
  show ?thesis
  proof (cases h)
    case None
    with Imported assms(1) show ?thesis
      by (simp add: test_database_def probe_def database_url_check_environment truthy_def)
  next
    case (Some db)
    show ?thesis
    proof (cases "list_collection_names db")
      case (Inl e)
      with assms(3) Imported Some have "isinstance_Exception e" by simp
      with Inl Imported Some assms(1) show ?thesis
        by (simp add: test_database_def probe_def list_collections_def
            database_url_check_environment truthy_def)
    next
      case (Inr cols)
      with Imported Some assms(1) show ?thesis
        by (simp add: test_database_def probe_def list_collections_def
            database_url_check_environment truthy_def)
    qed
  qed
qed

theorem test_database_url_unset_witness:
  "[''DATABASE_NAME'' \<mapsto> ascii ''prod''] ''DATABASE_URL'' = None \<and>
   (\<exists>r. test_database
           (Imported (Some \<lparr>name_attr = Some (ascii ''prod''),
              list_collection_names = Inl (Raised OtherException (ascii ''timed out''))\<rparr>))
           [''DATABASE_NAME'' \<mapsto> ascii ''prod''] = Inr r \<and>
        database_url r = Some (CROSS @ ascii '' Not Set''))"
proof -
  let ?imp = "Imported (Some \<lparr>name_attr = Some (ascii ''prod''),
              list_collection_names = Inl (Raised OtherException (ascii ''timed out''))\<rparr>)"
  have h1: "[''DATABASE_NAME'' \<mapsto> ascii ''prod''] ''DATABASE_URL'' = None"
    by simp
  have h2: "isinstance_Exception e" if "?imp = ImportRaises e" for e
    using that by simp
  have h3: "isinstance_Exception e"
    if "?imp = Imported (Some db)" "list_collection_names db = Inl e" for db e
    using that by auto
  have w: "\<exists>r. test_database ?imp [''DATABASE_NAME'' \<mapsto> ascii ''prod''] = Inr r \<and>
      database_url r = Some (CROSS @ ascii '' Not Set'')"
    by (rule test_database_url_unset
        [where getenv = "[''DATABASE_NAME'' \<mapsto> ascii ''prod'']" and imp = ?imp,
          OF h1 h2 h3])
  from h1 w show ?thesis by (rule conjI)
qed

section \<open>Properties of the generator\<close>

subsection \<open>Cutting and joining\<close>

lemma split_on_not_Nil: "split_on seps s \<noteq> []"
  by (induction s) (auto split: list.splits)

lemma join_with_Cons_Cons: "join_with sep ((c # l) # ls) = c # join_with sep (l # ls)"
  by (cases ls) simp_all

lemma join_with_split_on:
  "join_with sep (split_on seps s) = map (\<lambda>c. if c \<in> set seps then sep else c) s"
proof (induction s)
  case Nil
  show ?case by simp
next
  case (Cons c cs)
  obtain l ls where sp: "split_on seps cs = l # ls"
    using split_on_not_Nil [of seps cs] by (cases "split_on seps cs") auto
  show ?case using Cons sp by (simp add: join_with_Cons_Cons)
qed

lemma in_split_on:
  "l \<in> set (split_on seps s) \<Longrightarrow> c \<in> set l \<Longrightarrow> c \<in> set s \<and> c \<notin> set seps"
proof (induction s arbitrary: l)
  case Nil
  then show ?case by simp
next
  case (Cons a cs)
  obtain l' ls where sp: "split_on seps cs = l' # ls"
    using split_on_not_Nil [of seps cs] by (cases "split_on seps cs") auto
  show ?case
  proof (cases "a \<in> set seps")
    case True
    with Cons.prems sp have "l \<in> set (split_on seps cs)" by auto
    with Cons.IH Cons.prems(2) show ?thesis by auto
  next
    case False
    with Cons.prems(1) sp have "l = a # l' \<or> l \<in> set ls" by simp
    then show ?thesis
    proof
      assume l: "l = a # l'"
      have "l' \<in> set (split_on seps cs)" using sp by simp
      with Cons.IH [of l'] Cons.prems(2) l False show ?thesis by auto
    next
      assume "l \<in> set ls"
      then have "l \<in> set (split_on seps cs)" using sp by simp
      with Cons.IH Cons.prems(2) show ?thesis by auto
    qed
  qed
qed

subsection \<open>Text that the library takes, and text that reads back as assigned\<close>

lemma encodable_iff:
  "encodable s \<longleftrightarrow> (\<forall>c \<in> set s. \<not> surrogate c \<and> \<not> noncharacter c)"
  by (auto simp: encodable_def list_ex_iff)

lemma encodable_piece: "encodable s \<Longrightarrow> l \<in> set (split_on seps s) \<Longrightarrow> encodable l"
  using in_split_on [of l seps s] by (auto simp: encodable_iff)

lemma latin1_encodable: "latin1 s \<Longrightarrow> encodable s"
  by (auto simp: latin1_def encodable_iff list_all_iff surrogate_def noncharacter_def)

lemma run_text_encodable: "encodable r \<Longrightarrow> run_text r = Inr (escape_ctrl_chars r)"
  by (simp add: run_text_def encodable_def)

lemma escape_ctrl_chars_Nil: "escape_ctrl_chars [] = []"
  by (simp add: escape_ctrl_chars_def)

lemma escape_ctrl_chars_id: "(\<And>c. c \<in> set s \<Longrightarrow> \<not> ctrl_char c) \<Longrightarrow> escape_ctrl_chars s = s"
  by (induction s) (simp_all add: escape_ctrl_chars_def)

lemma add_runs_encodable:
  "(\<And>r. r \<in> set rs \<Longrightarrow> encodable r) \<Longrightarrow> add_runs rs = Inr (map escape_ctrl_chars rs)"
  by (induction rs) (simp_all add: run_text_encodable escape_ctrl_chars_Nil)

lemma append_text_encodable:
  "encodable s \<Longrightarrow>
   append_text s = Inr (join_with 11 (map escape_ctrl_chars (split_on [10, 11] s)))"
  using add_runs_encodable [of "split_on [10, 11] s"] encodable_piece [of s]
  by (simp add: append_text_def)

lemma append_text_verbatim_line:
  assumes "encodable s" and "verbatim_line s"
  shows "append_text s = Inr s"
proof -
  have "escape_ctrl_chars l = l" if "l \<in> set (split_on [10, 11] s)" for l
  proof (rule escape_ctrl_chars_id)
    fix c assume "c \<in> set l"
    with that in_split_on [of l "[10, 11]" s c] have "c \<in> set s" "c \<noteq> 11" by auto
    with assms(2) show "\<not> ctrl_char c" by (auto simp: verbatim_line_def list_all_iff)
  qed
  then have "map escape_ctrl_chars (split_on [10, 11] s) = split_on [10, 11] s"
    by (simp add: map_idI)
  moreover have "map (\<lambda>c. if c \<in> set [10, 11] then 11 else c) s = s"
    using assms(2) by (intro map_idI) (auto simp: verbatim_line_def list_all_iff)
  ultimately show ?thesis
    using assms(1) by (simp add: append_text_encodable join_with_split_on)
qed

lemma add_paragraphs_encodable:
  "(\<And>l. l \<in> set ls \<Longrightarrow> encodable l) \<Longrightarrow>
   add_paragraphs ls = Inr (map (\<lambda>l. new_paragraph\<lparr>p_text := projr (append_text l)\<rparr>) ls)"
  by (induction ls) (simp_all add: append_text_encodable)

lemma set_text_encodable:
  "encodable s \<Longrightarrow>
   set_text s =
     Inr (map (\<lambda>l. new_paragraph\<lparr>p_text := projr (append_text l)\<rparr>) (split_on [10] s))"
  using add_paragraphs_encodable [of "split_on [10] s"] encodable_piece [of s]
  by (simp add: set_text_def)

lemma get_text_set_text:
  assumes "encodable s" and "verbatim s"
  shows "\<exists>tf. set_text s = Inr tf \<and> get_text tf = s"
proof -
  have "projr (append_text l) = l" if "l \<in> set (split_on [10] s)" for l
  proof -
    have "verbatim_line l"
      using that in_split_on [of l "[10]" s] assms(2)
      by (auto simp: verbatim_line_def verbatim_def list_all_iff)
    with append_text_verbatim_line [of l] encodable_piece [OF assms(1) that]
    show ?thesis by simp
  qed
  then have "map (\<lambda>l. projr (append_text l)) (split_on [10] s) = split_on [10] s"
    by (simp add: map_idI)
  moreover have "map (\<lambda>c. if c \<in> set [10] then 10 else c) s = s"
    by (intro map_idI) auto
  ultimately show ?thesis
    using assms(1)
    by (simp add: set_text_encodable get_text_def comp_def join_with_split_on)
qed

subsection \<open>The document the handler builds\<close>

text \<open>
  For a payload whose strings the library takes, the loops run to their end; these are
  the frames and slides they leave.
\<close>

lemma write_bullet_encodable:
  "encodable b \<Longrightarrow> p < length tf \<Longrightarrow>
   write_bullet p b tf =
     Inr (tf[p := (tf ! p)\<lparr>p_text := projr (append_text b), p_level := 0,
                          p_font_size := Some (Pt 22)\<rparr>])"
  by (simp add: write_bullet_def paragraph_set_text_def append_text_encodable)

lemma add_bullets_False:
  "(\<And>b. b \<in> set bs \<Longrightarrow> encodable b) \<Longrightarrow>
   add_bullets bs False tf =
     Inr (tf @ map (\<lambda>b. \<lparr>p_text = projr (append_text b), p_level = 0,
                         p_font_size = Some (Pt 22)\<rparr>) bs)"
  by (induction bs arbitrary: tf)
    (simp_all add: add_paragraph_def write_bullet_encodable new_paragraph_def)

lemma add_bullets_cleared:
  "(\<And>b. b \<in> set bs \<Longrightarrow> encodable b) \<Longrightarrow>
   add_bullets bs True (clear [new_paragraph]) =
     Inr (if bs = [] then [new_paragraph]
          else map (\<lambda>b. \<lparr>p_text = projr (append_text b), p_level = 0,
                          p_font_size = Some (Pt 22)\<rparr>) bs)"
  by (cases bs)
    (simp_all add: clear_def new_paragraph_def paragraphs_getitem_def write_bullet_encodable
      add_bullets_False)

lemma content_slide_eq:
  assumes "encodable (title s)" and "\<And>b. b \<in> set (bullets s) \<Longrightarrow> encodable b"
  shows "content_slide s l prs =
     Inr (prs\<lparr>prs_slides := prs_slides prs @
       [\<lparr>layout = l,
         placeholders =
           [(0, projr (set_text (title s))),
            (1, if bullets s = [] then [new_paragraph]
                else map (\<lambda>b. \<lparr>p_text = projr (append_text b), p_level = 0,
                                p_font_size = Some (Pt 22)\<rparr>) (bullets s))]\<rparr>]\<rparr>)"
proof -
  obtain t1 where t1: "set_text (title s) = Inr t1"
    using set_text_encodable [OF assms(1)] by simp
  show ?thesis
    using t1 add_bullets_cleared [of "bullets s"] assms(2)
    by (simp add: content_slide_def add_slide_def shapes_title_def store_frame_def
        placeholders_getitem_def)
qed

lemma content_slides_eq:
  "(\<And>s. s \<in> set ss \<Longrightarrow> encodable (title s) \<and> (\<forall>b \<in> set (bullets s). encodable b)) \<Longrightarrow>
   content_slides ss l prs =
     Inr (prs\<lparr>prs_slides := prs_slides prs @
       map (\<lambda>s. \<lparr>layout = l,
         placeholders =
           [(0, projr (set_text (title s))),
            (1, if bullets s = [] then [new_paragraph]
                else map (\<lambda>b. \<lparr>p_text = projr (append_text b), p_level = 0,
                                p_font_size = Some (Pt 22)\<rparr>) (bullets s))]\<rparr>) ss\<rparr>)"
proof (induction ss arbitrary: prs)
  case Nil
  show ?case by simp
next
  case (Cons a ss)
  have a: "encodable (title a)" "\<And>b. b \<in> set (bullets a) \<Longrightarrow> encodable b"
    using Cons.prems [of a] by auto
  have rest: "\<And>s. s \<in> set ss \<Longrightarrow>
      encodable (title s) \<and> (\<forall>b \<in> set (bullets s). encodable b)"
    using Cons.prems by auto
  show ?case
    using Cons.IH [OF rest] by (simp add: content_slide_eq [OF a])
qed

lemma title_slide_eq:
  assumes "encodable (topic payload)" and "encodable (author_or_default (author payload))"
  shows "title_slide payload Presentation =
     Inr \<lparr>slide_layouts = [Title_Slide, Title_and_Content],
          prs_slides =
            [\<lparr>layout = Title_Slide,
              placeholders =
                [(0, projr (set_text (topic payload))),
                 (1, projr (set_text (author_or_default (author payload))))]\<rparr>]\<rparr>"
proof -
  obtain t1 where t1: "set_text (topic payload) = Inr t1"
    using set_text_encodable [OF assms(1)] by simp
  obtain st where st: "set_text (author_or_default (author payload)) = Inr st"
    using set_text_encodable [OF assms(2)] by simp
  show ?thesis
    using t1 st
    by (simp add: title_slide_def Presentation_def slide_layouts_getitem_def add_slide_def
        shapes_title_def store_frame_def placeholders_getitem_def)
qed

lemma document_texts_encodable:
  assumes "list_all encodable (document_texts payload)"
  shows "encodable (topic payload)"
    and "encodable (author_or_default (author payload))"
    and "\<And>s. s \<in> set (slides payload) \<Longrightarrow>
           encodable (title s) \<and> (\<forall>b \<in> set (bullets s). encodable b)"
  using assms by (auto simp: document_texts_def list_all_iff)

lemma latin1_header:
  "latin1 t \<Longrightarrow>
   latin1 (ascii ''attachment; filename='' @ [34] @ replace t 32 95 @ ascii ''.pptx'' @ [34])"
  by (auto simp: latin1_def replace_def ascii_def list_all_iff)

lemma latin1_media_type:
  "latin1 (ascii
     ''application/vnd.openxmlformats-officedocument.presentationml.presentation'')"
  by (simp add: latin1_def ascii_def)

lemma latin1_Content_Disposition: "latin1 (ascii ''Content-Disposition'')"
  by (simp add: latin1_def ascii_def)

text \<open>
  The response of the handler for a payload whose strings the library takes and whose
  topic the response constructor can encode.
\<close>

lemma generate_pptx_eq:
  assumes "latin1 (topic payload)" and "list_all encodable (document_texts payload)"
  shows "generate_pptx payload =
     Inr \<lparr>content =
            \<lparr>slide_layouts = [Title_Slide, Title_and_Content],
             prs_slides =
               \<lparr>layout = Title_Slide,
                placeholders =
                  [(0, projr (set_text (topic payload))),
                   (1, projr (set_text (author_or_default (author payload))))]\<rparr> #
               map (\<lambda>s. \<lparr>layout = Title_and_Content,
                 placeholders =
                   [(0, projr (set_text (title s))),
                    (1, if bullets s = [] then [new_paragraph]
                        else map (\<lambda>b. \<lparr>p_text = projr (append_text b), p_level = 0,
                                        p_font_size = Some (Pt 22)\<rparr>) (bullets s))]\<rparr>)
                 (slides payload)\<rparr>,
          media_type = ascii
            ''application/vnd.openxmlformats-officedocument.presentationml.presentation'',
          headers =
            [(ascii ''Content-Disposition'',
              ascii ''attachment; filename='' @ [34] @ replace (topic payload) 32 95 @
              ascii ''.pptx'' @ [34])]\<rparr>"
proof -
  note enc = document_texts_encodable [OF assms(2)]
  have cs: "content_slides (slides payload) Title_and_Content prs =
     Inr (prs\<lparr>prs_slides := prs_slides prs @
       map (\<lambda>s. \<lparr>layout = Title_and_Content,
         placeholders =
           [(0, projr (set_text (title s))),
            (1, if bullets s = [] then [new_paragraph]
                else map (\<lambda>b. \<lparr>p_text = projr (append_text b), p_level = 0,
                                p_font_size = Some (Pt 22)\<rparr>) (bullets s))]\<rparr>)
         (slides payload)\<rparr>)" for prs
    using enc(3) by (rule content_slides_eq)
  show ?thesis
    using latin1_header [OF assms(1)]
    by (simp add: generate_pptx_def title_slide_eq [OF enc(1) enc(2)] slide_layouts_getitem_def
        cs new_StreamingResponse_def latin1_media_type latin1_Content_Disposition)
qed

lemmas handler_defs =
  generate_pptx_def title_slide_def Presentation_def slide_layouts_getitem_def
  add_slide_def shapes_title_def store_frame_def placeholders_getitem_def set_text_def
  append_text_def run_text_def author_or_default_def truthy_def ascii_def
  escape_ctrl_chars_def escape_ctrl_char_def hex_digit_def ctrl_char_def surrogate_def
  noncharacter_def content_slide_def clear_def paragraphs_getitem_def add_paragraph_def
  write_bullet_def paragraph_set_text_def new_paragraph_def new_StreamingResponse_def
  latin1_def replace_def get_text_def

lemmas class_defs =
  latin1_def encodable_def verbatim_def verbatim_line_def document_texts_def
  author_or_default_def truthy_def ascii_def surrogate_def noncharacter_def ctrl_char_def

subsection \<open>The claims about the generator\<close>

text \<open>
  Claim C1, as stated, fails: a payload is valid with a lone surrogate in a slide title,
  the library raises when the title is assigned (line 106), and the handler produces no
  document.
\<close>

theorem generate_pptx_raises_on_surrogate_counterexample:
  "generate_pptx
     \<lparr>topic = ascii ''T'', slides = [\<lparr>title = [55296], bullets = []\<rparr>], author = None\<rparr> =
   Inl UnicodeEncodeError"
  by (simp add: generate_pptx_def title_slide_def Presentation_def slide_layouts_getitem_def
      add_slide_def shapes_title_def store_frame_def placeholders_getitem_def set_text_def
      append_text_def run_text_def author_or_default_def truthy_def ascii_def
      escape_ctrl_chars_def ctrl_char_def surrogate_def noncharacter_def content_slide_def)

text \<open>
  Claim C1, amended. For every payload whose strings hold no lone surrogate and neither
  U+FFFE nor U+FFFF, and whose topic has no code point above U+00FF, the handler returns a
  document with exactly \<open>length (slides payload) + 1\<close> slides: the first on the title layout,
  then one slide on the bullet layout for each entry of the payload's list, in the order of
  the list (the title shape of content slide \<open>i\<close> holds what assigning the title of entry
  \<open>i\<close> gives).
\<close>

theorem generate_pptx_slide_count:
  assumes "latin1 (topic payload)" and "list_all encodable (document_texts payload)"
  shows "\<exists>r. generate_pptx payload = Inr r \<and>
       length (prs_slides (content r)) = length (slides payload) + 1 \<and>
       layout (hd (prs_slides (content r))) = Title_Slide \<and>
       map layout (tl (prs_slides (content r))) =
         replicate (length (slides payload)) Title_and_Content \<and>
       map shapes_title (tl (prs_slides (content r))) =
         map (\<lambda>s. set_text (title s)) (slides payload)"
proof -
  have "Inr (projr (set_text (title s))) = set_text (title s)" if "s \<in> set (slides payload)" for s
    using set_text_encodable [of "title s"] document_texts_encodable(3) [OF assms(2) that]
    by simp
  then have "map (\<lambda>s. Inr (projr (set_text (title s)))) (slides payload) =
      map (\<lambda>s. set_text (title s)) (slides payload)"
    by simp
  then show ?thesis
    by (simp add: generate_pptx_eq [OF assms] comp_def shapes_title_def map_replicate_const)
qed

theorem generate_pptx_slide_count_witness:
  "latin1 (topic \<lparr>topic = ascii ''My Talk'',
       slides = [\<lparr>title = ascii ''Intro'', bullets = [ascii ''A'', ascii ''B'']\<rparr>],
       author = Some (ascii ''Jo'')\<rparr>) \<and>
   list_all encodable (document_texts \<lparr>topic = ascii ''My Talk'',
       slides = [\<lparr>title = ascii ''Intro'', bullets = [ascii ''A'', ascii ''B'']\<rparr>],
       author = Some (ascii ''Jo'')\<rparr>) \<and>
   (\<exists>r. generate_pptx \<lparr>topic = ascii ''My Talk'',
       slides = [\<lparr>title = ascii ''Intro'', bullets = [ascii ''A'', ascii ''B'']\<rparr>],
       author = Some (ascii ''Jo'')\<rparr> = Inr r \<and>
     length (prs_slides (content r)) = 2)"
proof -
  have h1: "latin1 (topic \<lparr>topic = ascii ''My Talk'',
       slides = [\<lparr>title = ascii ''Intro'', bullets = [ascii ''A'', ascii ''B'']\<rparr>],
       author = Some (ascii ''Jo'')\<rparr>)"
    by (simp add: class_defs)
  have h2: "list_all encodable (document_texts \<lparr>topic = ascii ''My Talk'',
       slides = [\<lparr>title = ascii ''Intro'', bullets = [ascii ''A'', ascii ''B'']\<rparr>],
       author = Some (ascii ''Jo'')\<rparr>)"
    by (simp add: class_defs)
  show ?thesis
    using h1 h2 generate_pptx_slide_count [OF h1 h2] by auto
qed

text \<open>
  Claim C2, as stated, fails in three ways. For a slide without bullets, \<^verbatim>\<open>tf.clear()\<close>
  leaves one empty paragraph in the body, the loop does not run, and the body holds one
  paragraph where the list holds no bullet. A line feed in a bullet becomes a line break,
  which reads back as a vertical tab: the bullet \<^verbatim>\<open>A\nB\<close> reads back as \<^verbatim>\<open>A\vB\<close>. And a
  lone surrogate in a bullet makes the library raise at line 117.
\<close>

theorem generate_pptx_body_paragraphs_counterexample:
  "placeholders_getitem
     (prs_slides (content (projr (generate_pptx
        \<lparr>topic = ascii ''T'', slides = [\<lparr>title = ascii ''S'', bullets = []\<rparr>],
         author = None\<rparr>))) ! 1) 1 = Inr [new_paragraph] \<and>
   length [new_paragraph] \<noteq>
     length (bullets (slides
        \<lparr>topic = ascii ''T'', slides = [\<lparr>title = ascii ''S'', bullets = []\<rparr>],
         author = None\<rparr> ! 0)) \<and>
   map p_text (projr (placeholders_getitem
     (prs_slides (content (projr (generate_pptx
        \<lparr>topic = ascii ''T'', slides = [\<lparr>title = ascii ''S'', bullets = [[65, 10, 66]]\<rparr>],
         author = None\<rparr>))) ! 1) 1)) = [[65, 11, 66]] \<and>
   generate_pptx
     \<lparr>topic = ascii ''T'', slides = [\<lparr>title = ascii ''S'', bullets = [[56320]]\<rparr>],
      author = None\<rparr> = Inl UnicodeEncodeError"
  by (simp add: handler_defs)

text \<open>
  Claim C2, amended. For every payload whose strings hold no lone surrogate and neither
  U+FFFE nor U+FFFF, and whose topic has no code point above U+00FF, and for every index
  \<open>n\<close> into its slides, the body placeholder of content slide \<open>n\<close> holds
  \<open>max 1 (length bullets)\<close> paragraphs: a single empty paragraph when entry \<open>n\<close> has no
  bullet, and otherwise one paragraph for each bullet, in the submitted order, whose text
  is what the library reads back for that bullet. That text is the bullet itself when the
  bullet holds no line feed and no control character of U+0000 to U+0008 or U+000C to
  U+001F.
\<close>

theorem generate_pptx_body_paragraphs:
  assumes "n < length (slides payload)"
    and "latin1 (topic payload)" and "list_all encodable (document_texts payload)"
  shows "\<exists>r tf. generate_pptx payload = Inr r \<and>
     placeholders_getitem (prs_slides (content r) ! Suc n) 1 = Inr tf \<and>
     length tf = max 1 (length (bullets (slides payload ! n))) \<and>
     (bullets (slides payload ! n) = [] \<longrightarrow> map p_text tf = [[]]) \<and>
     (bullets (slides payload ! n) \<noteq> [] \<longrightarrow>
        map (\<lambda>p. Inr (p_text p)) tf = map append_text (bullets (slides payload ! n))) \<and>
     (bullets (slides payload ! n) \<noteq> [] \<and>
      list_all verbatim_line (bullets (slides payload ! n)) \<longrightarrow>
        map p_text tf = bullets (slides payload ! n))"
proof -
  let ?bs = "bullets (slides payload ! n)"
  have mem: "slides payload ! n \<in> set (slides payload)"
    using assms(1) by simp
  have enc: "encodable b" if "b \<in> set ?bs" for b
    using document_texts_encodable(3) [OF assms(3) mem] that by simp
  have a: "map (\<lambda>b. Inr (projr (append_text b))) ?bs = map append_text ?bs"
    using enc by (simp add: append_text_encodable)
  have b: "map (\<lambda>b. projr (append_text b)) ?bs = ?bs" if "list_all verbatim_line ?bs"
  proof -
    have "projr (append_text b) = b" if "b \<in> set ?bs" for b
      using append_text_verbatim_line [OF enc [OF that]] \<open>list_all verbatim_line ?bs\<close> that
      by (simp add: list_all_iff)
    then show ?thesis by (simp add: map_idI)
  qed
  have c: "max (Suc 0) (length ?bs) = length ?bs" if "?bs \<noteq> []"
    using that by (cases ?bs) simp_all
  show ?thesis
    using assms(1) a b c
    by (simp add: generate_pptx_eq [OF assms(2,3)] placeholders_getitem_def comp_def
        new_paragraph_def)
qed

theorem generate_pptx_body_paragraphs_witness:
  "(\<exists>r tf. generate_pptx \<lparr>topic = ascii ''My Talk'',
       slides = [\<lparr>title = ascii ''Intro'', bullets = [ascii ''A'', ascii ''B'']\<rparr>,
                 \<lparr>title = ascii ''End'', bullets = []\<rparr>],
       author = Some (ascii ''Jo'')\<rparr> = Inr r \<and>
     placeholders_getitem (prs_slides (content r) ! Suc 0) 1 = Inr tf \<and>
     map p_text tf = [ascii ''A'', ascii ''B'']) \<and>
   (\<exists>r tf. generate_pptx \<lparr>topic = ascii ''My Talk'',
       slides = [\<lparr>title = ascii ''Intro'', bullets = [ascii ''A'', ascii ''B'']\<rparr>,
                 \<lparr>title = ascii ''End'', bullets = []\<rparr>],
       author = Some (ascii ''Jo'')\<rparr> = Inr r \<and>
     placeholders_getitem (prs_slides (content r) ! Suc 1) 1 = Inr tf \<and>
     map p_text tf = [[]])"
proof -
  let ?P = "\<lparr>topic = ascii ''My Talk'',
       slides = [\<lparr>title = ascii ''Intro'', bullets = [ascii ''A'', ascii ''B'']\<rparr>,
                 \<lparr>title = ascii ''End'', bullets = []\<rparr>],
       author = Some (ascii ''Jo'')\<rparr>"
  have h0: "(0::nat) < length (slides ?P)" and h0': "(1::nat) < length (slides ?P)"
    by simp_all
  have h1: "latin1 (topic ?P)"
    by (simp add: class_defs)
  have h2: "list_all encodable (document_texts ?P)"
    by (simp add: class_defs)
  have h3: "bullets (slides ?P ! 0) \<noteq> [] \<and> list_all verbatim_line (bullets (slides ?P ! 0))"
    by (simp add: class_defs)
  have h4: "bullets (slides ?P ! 0) = [ascii ''A'', ascii ''B'']"
    by simp
  have h5: "bullets (slides ?P ! 1) = []"
    by simp
  have a: "\<exists>r tf. generate_pptx ?P = Inr r \<and>
     placeholders_getitem (prs_slides (content r) ! Suc 0) 1 = Inr tf \<and>
     map p_text tf = [ascii ''A'', ascii ''B'']"
    using h3 h4 generate_pptx_body_paragraphs [OF h0 h1 h2] by metis
  have b: "\<exists>r tf. generate_pptx ?P = Inr r \<and>
     placeholders_getitem (prs_slides (content r) ! Suc 1) 1 = Inr tf \<and>
     map p_text tf = [[]]"
    using h5 generate_pptx_body_paragraphs [OF h0' h1 h2] by metis
  from a b show ?thesis by (rule conjI)
qed

text \<open>
  Claim C3, as stated, fails: for a topic with a lone surrogate the library raises when
  the topic is assigned (line 98), and for a topic with a code point above U+00FF, such as
  U+65E5 U+672C U+8A9E, the constructor of the response raises at line 130, since it
  encodes the header value as Latin-1. In both cases there is no response and no header.
\<close>

theorem generate_pptx_content_disposition_counterexample:
  "generate_pptx \<lparr>topic = [55296], slides = [], author = None\<rparr> = Inl UnicodeEncodeError \<and>
   generate_pptx \<lparr>topic = [26085, 26412, 35486], slides = [], author = None\<rparr> =
     Inl UnicodeEncodeError"
  by (simp add: handler_defs)

text \<open>
  Claim C3, amended. For every payload whose strings hold no lone surrogate and neither
  U+FFFE nor U+FFFF, and whose topic has no code point above U+00FF (with or without
  spaces), the headers of the response map \<^verbatim>\<open>Content-Disposition\<close> to
  \<^verbatim>\<open>attachment; filename="\<close>\<open>f\<close>\<^verbatim>\<open>"\<close>, where \<open>f\<close> is the topic with every space (code point
  32) replaced by an underscore (95), followed by \<^verbatim>\<open>.pptx\<close>.
\<close>

theorem generate_pptx_content_disposition:
  assumes "latin1 (topic payload)" and "list_all encodable (document_texts payload)"
  shows "\<exists>r. generate_pptx payload = Inr r \<and>
       map_of (headers r) (ascii ''Content-Disposition'') =
         Some (ascii ''attachment; filename='' @ [34] @
               map (\<lambda>c. if c = 32 then 95 else c) (topic payload) @ ascii ''.pptx'' @ [34])"
  by (simp add: generate_pptx_eq [OF assms] replace_def)

theorem generate_pptx_content_disposition_witness:
  "latin1 (topic \<lparr>topic = ascii ''My Talk'', slides = [], author = None\<rparr>) \<and>
   list_all encodable (document_texts \<lparr>topic = ascii ''My Talk'', slides = [], author = None\<rparr>) \<and>
   (\<exists>r. generate_pptx \<lparr>topic = ascii ''My Talk'', slides = [], author = None\<rparr> = Inr r \<and>
       map_of (headers r) (ascii ''Content-Disposition'') =
         Some (ascii ''attachment; filename='' @ [34] @ ascii ''My_Talk.pptx'' @ [34]))"
proof -
  let ?P = "\<lparr>topic = ascii ''My Talk'', slides = [], author = None\<rparr>"
  have h1: "latin1 (topic ?P)"
    by (simp add: class_defs)
  have h2: "list_all encodable (document_texts ?P)"
    by (simp add: class_defs)
  show ?thesis
    using h1 h2 generate_pptx_content_disposition [OF h1 h2] by (simp add: ascii_def)
qed

text \<open>
  Claim C4, as stated, fails in three ways. For an author that is present and empty, the
  operator \<^verbatim>\<open>or\<close> takes the empty string for false, and the subtitle is the default
  string. A control character in the topic is stored as an escape: the topic U+0007 reads
  back as \<^verbatim>\<open>_x0007_\<close>. And a lone surrogate in the author makes the library raise at line
  100.
\<close>

theorem generate_pptx_title_slide_counterexample:
  "author \<lparr>topic = ascii ''T'', slides = [], author = Some []\<rparr> = Some [] \<and>
   map_sum id get_text
     (placeholders_getitem
        (prs_slides (content (projr (generate_pptx
           \<lparr>topic = ascii ''T'', slides = [], author = Some []\<rparr>))) ! 0) 1) =
     Inr (ascii ''Auto-generated presentation'') \<and>
   ascii ''Auto-generated presentation'' \<noteq> [] \<and>
   map_sum id get_text
     (shapes_title
        (prs_slides (content (projr (generate_pptx
           \<lparr>topic = [7], slides = [], author = None\<rparr>))) ! 0)) =
     Inr (ascii ''_x0007_'') \<and>
   generate_pptx \<lparr>topic = ascii ''T'', slides = [], author = Some [57343]\<rparr> =
     Inl UnicodeEncodeError"
  by (simp add: handler_defs)

text \<open>
  Claim C4, amended. For every payload whose strings hold no lone surrogate and neither
  U+FFFE nor U+FFFF, whose topic has no code point above U+00FF, and whose topic and
  author hold no control character of U+0000 to U+0008 or U+000C to U+001F, the title of
  the title slide reads back as the topic, and its subtitle as the author when the author
  is present and not empty, and as \<^verbatim>\<open>Auto-generated presentation\<close> when the author is
  absent or the empty string.
\<close>

theorem generate_pptx_title_slide:
  assumes "latin1 (topic payload)" and "list_all encodable (document_texts payload)"
    and "verbatim (topic payload)" and "verbatim (author_or_default (author payload))"
  shows "\<exists>r t st. generate_pptx payload = Inr r \<and>
     shapes_title (hd (prs_slides (content r))) = Inr t \<and>
     get_text t = topic payload \<and>
     placeholders_getitem (hd (prs_slides (content r))) 1 = Inr st \<and>
     get_text st =
       (case author payload of
          None \<Rightarrow> ascii ''Auto-generated presentation''
        | Some a \<Rightarrow> if a = [] then ascii ''Auto-generated presentation'' else a)"
proof -
  note enc = document_texts_encodable [OF assms(2)]
  obtain t where t: "set_text (topic payload) = Inr t" "get_text t = topic payload"
    using get_text_set_text [OF enc(1) assms(3)] by blast
  obtain st where st: "set_text (author_or_default (author payload)) = Inr st"
    "get_text st = author_or_default (author payload)"
    using get_text_set_text [OF enc(2) assms(4)] by blast
  show ?thesis
    using t st
    by (simp add: generate_pptx_eq [OF assms(1,2)] shapes_title_def placeholders_getitem_def
        author_or_default_def truthy_def split: option.split)
qed

theorem generate_pptx_title_slide_witness:
  "latin1 (topic \<lparr>topic = ascii ''My Talk'', slides = [], author = Some (ascii ''Jo'')\<rparr>) \<and>
   list_all encodable
     (document_texts \<lparr>topic = ascii ''My Talk'', slides = [], author = Some (ascii ''Jo'')\<rparr>) \<and>
   verbatim (topic \<lparr>topic = ascii ''My Talk'', slides = [], author = Some (ascii ''Jo'')\<rparr>) \<and>
   verbatim (author_or_default
     (author \<lparr>topic = ascii ''My Talk'', slides = [], author = Some (ascii ''Jo'')\<rparr>)) \<and>
   (\<exists>r t st. generate_pptx
        \<lparr>topic = ascii ''My Talk'', slides = [], author = Some (ascii ''Jo'')\<rparr> = Inr r \<and>
     shapes_title (hd (prs_slides (content r))) = Inr t \<and>
     get_text t = ascii ''My Talk'' \<and>
     placeholders_getitem (hd (prs_slides (content r))) 1 = Inr st \<and>
     get_text st = ascii ''Jo'')"
proof -
  let ?P = "\<lparr>topic = ascii ''My Talk'', slides = [], author = Some (ascii ''Jo'')\<rparr>"
  have h1: "latin1 (topic ?P)"
    by (simp add: class_defs)
  have h2: "list_all encodable (document_texts ?P)"
    by (simp add: class_defs)
  have h3: "verbatim (topic ?P)"
    by (simp add: class_defs)
  have h4: "verbatim (author_or_default (author ?P))"
    by (simp add: class_defs)
  have h5: "ascii ''Jo'' \<noteq> []"
    by (simp add: ascii_def)
  show ?thesis
    using h1 h2 h3 h4 h5 generate_pptx_title_slide [OF h1 h2 h3 h4] by simp
qed

section \<open>Properties of request validation\<close>

lemma validate_Slide_items_rejects:
  "j \<in> set js \<Longrightarrow> isl (validate_Slide j) \<Longrightarrow> isl (validate_Slide_items js)"
  by (induction js) (auto split: sum.splits)

lemma validate_Slide_items_append:
  "validate_Slide_items js1 = Inr ss1 \<Longrightarrow> validate_Slide j = Inr s \<Longrightarrow>
   validate_Slide_items js2 = Inr ss2 \<Longrightarrow>
   validate_Slide_items (js1 @ j # js2) = Inr (ss1 @ s # ss2)"
  by (induction js1 arbitrary: ss1) (auto split: sum.splits)

lemma validate_PresentationPayload_rejects:
  "map_of kvs (ascii ''slides'') = Some (JArr js) \<Longrightarrow> isl (validate_Slide_items js) \<Longrightarrow>
   isl (validate_PresentationPayload (JObj kvs))"
  by (auto simp: validate_PresentationPayload_def validate_slides_def split: sum.splits)

lemma validate_PresentationPayload_accepts:
  "map_of kvs (ascii ''slides'') = Some (JArr js) \<Longrightarrow> validate_Slide_items js = Inr ss \<Longrightarrow>
   validate_topic (map_of kvs (ascii ''topic'')) = Inr tp \<Longrightarrow>
   validate_author (map_of kvs (ascii ''author'')) = Inr a \<Longrightarrow>
   validate_PresentationPayload (JObj kvs) = Inr \<lparr>topic = tp, slides = ss, author = a\<rparr>"
  by (simp add: validate_PresentationPayload_def validate_slides_def)

text \<open>
  Claim C9. A slide object with a string \<open>title\<close> and no \<open>bullets\<close> key passes validation
  as a slide with the empty bullet list, and a request body that holds it among slides
  that pass, with a topic and an author that pass, is accepted with that slide, bullets
  empty, at its place in the payload. A slide object without a \<open>title\<close> key is rejected,
  and so is every request body whose \<open>slides\<close> array holds it.
\<close>

theorem validate_Slide_bullets_optional:
  "(map_of kvs (ascii ''title'') = Some (JStr t) \<and> map_of kvs (ascii ''bullets'') = None \<longrightarrow>
      validate_Slide (JObj kvs) = Inr \<lparr>title = t, bullets = []\<rparr> \<and>
      (map_of body (ascii ''slides'') = Some (JArr (js1 @ JObj kvs # js2)) \<and>
       validate_Slide_items js1 = Inr ss1 \<and> validate_Slide_items js2 = Inr ss2 \<and>
       validate_topic (map_of body (ascii ''topic'')) = Inr tp \<and>
       validate_author (map_of body (ascii ''author'')) = Inr a \<longrightarrow>
         validate_PresentationPayload (JObj body) =
           Inr \<lparr>topic = tp, slides = ss1 @ \<lparr>title = t, bullets = []\<rparr> # ss2, author = a\<rparr>)) \<and>
   (map_of kvs (ascii ''title'') = None \<longrightarrow>
      validate_Slide (JObj kvs) = Inl (Missing ''title'') \<and>
      (JObj kvs \<in> set js \<and> map_of body (ascii ''slides'') = Some (JArr js) \<longrightarrow>
         isl (validate_PresentationPayload (JObj body))))"
proof -
  have a: "validate_Slide (JObj kvs) = Inr \<lparr>title = t, bullets = []\<rparr>"
    if "map_of kvs (ascii ''title'') = Some (JStr t)" "map_of kvs (ascii ''bullets'') = None"
    using that by (simp add: validate_Slide_def validate_str_def)
  have a': "validate_PresentationPayload (JObj body) =
      Inr \<lparr>topic = tp, slides = ss1 @ \<lparr>title = t, bullets = []\<rparr> # ss2, author = a\<rparr>"
    if "map_of kvs (ascii ''title'') = Some (JStr t)" "map_of kvs (ascii ''bullets'') = None"
      "map_of body (ascii ''slides'') = Some (JArr (js1 @ JObj kvs # js2))"
      "validate_Slide_items js1 = Inr ss1" "validate_Slide_items js2 = Inr ss2"
      "validate_topic (map_of body (ascii ''topic'')) = Inr tp"
      "validate_author (map_of body (ascii ''author'')) = Inr a"
    using validate_PresentationPayload_accepts [OF that(3) _ that(6) that(7)]
      validate_Slide_items_append [OF that(4) a [OF that(1) that(2)] that(5)]
    by simp
  have b: "validate_Slide (JObj kvs) = Inl (Missing ''title'')"
    if "map_of kvs (ascii ''title'') = None"
    using that by (simp add: validate_Slide_def)
  have c: "isl (validate_PresentationPayload (JObj body))"
    if "map_of kvs (ascii ''title'') = None" "JObj kvs \<in> set js"
      "map_of body (ascii ''slides'') = Some (JArr js)"
    using that b validate_Slide_items_rejects [of "JObj kvs" js]
      validate_PresentationPayload_rejects [of body js] by simp
  show ?thesis using a a' b c by blast
qed

theorem validate_Slide_bullets_optional_witness:
  "validate_Slide (JObj [(ascii ''title'', JStr (ascii ''Intro''))]) =
     Inr \<lparr>title = ascii ''Intro'', bullets = []\<rparr> \<and>
   validate_PresentationPayload
     (JObj [(ascii ''slides'',
        JArr ([JObj [(ascii ''title'', JStr (ascii ''First'')),
                     (ascii ''bullets'', JArr [JStr (ascii ''A'')])]] @
              JObj [(ascii ''title'', JStr (ascii ''Intro''))] # []))]) =
     Inr \<lparr>topic = ascii ''Yoga: History & Advantages'',
          slides = [\<lparr>title = ascii ''First'', bullets = [ascii ''A'']\<rparr>] @
                   \<lparr>title = ascii ''Intro'', bullets = []\<rparr> # [],
          author = None\<rparr> \<and>
   validate_Slide (JObj [(ascii ''bullets'', JArr [JStr (ascii ''A'')])]) =
     Inl (Missing ''title'') \<and>
   isl (validate_PresentationPayload
     (JObj [(ascii ''slides'', JArr [JObj [(ascii ''bullets'', JArr [JStr (ascii ''A'')])]])]))"
proof -
  let ?kvs1 = "[(ascii ''title'', JStr (ascii ''Intro''))]"
  let ?js1 = "[JObj [(ascii ''title'', JStr (ascii ''First'')),
                     (ascii ''bullets'', JArr [JStr (ascii ''A'')])]]"
  let ?body1 = "[(ascii ''slides'', JArr (?js1 @ JObj ?kvs1 # []))]"
  let ?kvs2 = "[(ascii ''bullets'', JArr [JStr (ascii ''A'')])]"
  let ?body2 = "[(ascii ''slides'', JArr [JObj ?kvs2])]"
  have t1: "map_of ?kvs1 (ascii ''title'') = Some (JStr (ascii ''Intro''))"
    by simp
  have t2: "map_of ?kvs1 (ascii ''bullets'') = None"
    by (simp add: ascii_def)
  have t3: "map_of ?body1 (ascii ''slides'') = Some (JArr (?js1 @ JObj ?kvs1 # []))"
    by simp
  have t4: "validate_Slide_items ?js1 = Inr [\<lparr>title = ascii ''First'', bullets = [ascii ''A'']\<rparr>]"
    by (simp add: validate_Slide_def validate_str_def validate_bullets_def, simp add: ascii_def)
  have t5: "validate_Slide_items [] = Inr []"
    by simp
  have t6: "validate_topic (map_of ?body1 (ascii ''topic'')) =
      Inr (ascii ''Yoga: History & Advantages'')"
    by (simp add: validate_topic_def, simp add: ascii_def)
  have t7: "validate_author (map_of ?body1 (ascii ''author'')) = Inr None"
    by (simp add: validate_author_def, simp add: ascii_def)
  have u1: "map_of ?kvs2 (ascii ''title'') = None"
    by (simp add: ascii_def)
  have u2: "JObj ?kvs2 \<in> set [JObj ?kvs2]"
    by simp
  have u3: "map_of ?body2 (ascii ''slides'') = Some (JArr [JObj ?kvs2])"
    by simp
  note first = validate_Slide_bullets_optional
    [where kvs = ?kvs1 and t = "ascii ''Intro''" and body = ?body1 and ?js1.0 = ?js1
       and ?js2.0 = "[]" and ?ss1.0 = "[\<lparr>title = ascii ''First'', bullets = [ascii ''A'']\<rparr>]"
       and ?ss2.0 = "[]" and tp = "ascii ''Yoga: History & Advantages''" and a = None,
     THEN conjunct1, THEN mp, OF conjI [OF t1 t2]]
  note second = validate_Slide_bullets_optional
    [where kvs = ?kvs2 and js = "[JObj ?kvs2]" and body = ?body2,
     THEN conjunct2, THEN mp, OF u1]
  note a1 = first [THEN conjunct1]
  note a2 = first [THEN conjunct2, THEN mp,
    OF conjI [OF t3 conjI [OF t4 conjI [OF t5 conjI [OF t6 t7]]]]]
  note b1 = second [THEN conjunct1]
  note b2 = second [THEN conjunct2, THEN mp, OF conjI [OF u2 u3]]
  from a1 a2 b1 b2 show ?thesis by (intro conjI)
qed






end
